theory Spec2Isabelle
  imports Main "HOL-Library.AList" "HOL-Library.Sublist"
begin

section \<open>JavaScript values, requests and responses\<close>

text \<open>
  The handlers read loosely typed values out of the request (\<open>req.body\<close>,
  \<open>req.params\<close>, \<open>req.query\<close>) and test them by truthiness, so the values are
  embedded as a datatype of JavaScript values. A number is an integer here: the only
  thing the handlers ask of a number is whether it is zero. \<open>JDate\<close> is a \<open>Date\<close>
  object (its time stamp), \<open>JOid\<close> an ObjectId (its 96-bit value), \<open>JErrMsg e\<close> the
  text \<open>error.message\<close> of a caught error, which the libraries choose.
\<close>

datatype err =
    ValidationError
  | DuplicateKey
  | CastError
  | IllegalArguments
  | SecretMissing
  | BadRegex

datatype jsval =
    Undefined
  | Null
  | JBool bool
  | JNum int
  | JStr string
  | JDate int
  | JOid nat
  | JErrMsg err
  | JArr "jsval list"
  | JObj "(string \<times> jsval) list"

type_synonym obj = "(string \<times> jsval) list"

text \<open>\<open>!v\<close> is \<open>\<not> truthy v\<close>.\<close>

fun truthy :: "jsval \<Rightarrow> bool" where
  "truthy Undefined = False"
| "truthy Null = False"
| "truthy (JBool b) = b"
| "truthy (JNum n) = (n \<noteq> 0)"
| "truthy (JStr s) = (s \<noteq> [])"
| "truthy (JDate t) = True"
| "truthy (JOid n) = True"
| "truthy (JErrMsg e) = True"
| "truthy (JArr vs) = True"
| "truthy (JObj kvs) = True"

text \<open>Property access \<open>o.k\<close>: \<open>undefined\<close> when the object has no such key.\<close>

definition get :: "obj \<Rightarrow> string \<Rightarrow> jsval" where
  "get ob k = (case map_of ob k of None \<Rightarrow> Undefined | Some v \<Rightarrow> v)"

text \<open>
  \<open>Object.assign\<close>, the spread \<open>{...a, k: v}\<close> and the \<open>$set\<close> of an update: each key of
  the second object is written into the first, in place when the key is there, at the
  end otherwise.
\<close>

definition assign :: "obj \<Rightarrow> obj \<Rightarrow> obj" where
  "assign ob upd = fold (\<lambda>(k, v). AList.update k v) upd ob"

record request =
  body :: obj
  params :: obj
  query :: obj
  req_file :: "string option"
  verrors :: "jsval list"

text \<open>
  \<open>req_file\<close> is \<open>req.file\<close> (the stored file's \<open>filename\<close>, when the upload middleware
  stored one); \<open>verrors\<close> is \<open>validationResult(req).array()\<close>.
\<close>

record response =
  status :: nat
  json :: jsval

record doc =
  oid :: nat
  flds :: obj

record store =
  users :: "doc list"
  employees :: "doc list"

text \<open>
  What a handler takes from its surroundings: the clock (\<open>new Date()\<close>), the ObjectId
  the driver generates for a new document, bcrypt's salted hash and its verification,
  the signing secret \<open>process.env.JWT_SECRET\<close> and the token signer, and the store's
  case-insensitive regular-expression search (\<open>None\<close> for a pattern the store
  rejects).
\<close>

record env =
  now :: int
  new_id :: nat
  bhash :: "string \<Rightarrow> string"
  bverify :: "string \<Rightarrow> string \<Rightarrow> bool"
  jwt_secret :: "string option"
  jwt :: "nat \<Rightarrow> string \<Rightarrow> string"
  regex_i :: "string \<Rightarrow> (string \<Rightarrow> bool) option"

definition doc_json :: "doc \<Rightarrow> jsval" where
  "doc_json d = JObj ((''_id'', JOid (oid d)) # flds d)"

section \<open>The libraries the controllers call\<close>

subsection \<open>bcryptjs\<close>

text \<open>
  \<open>bcrypt.hash(s, 10)\<close> and \<open>bcrypt.compare(s, hash)\<close> reject with
  "Illegal arguments" when an argument is not a string.
\<close>

definition bcrypt_hash :: "env \<Rightarrow> jsval \<Rightarrow> err + string" where
  "bcrypt_hash e v = (case v of JStr s \<Rightarrow> Inr (bhash e s) | _ \<Rightarrow> Inl IllegalArguments)"

definition bcrypt_compare :: "env \<Rightarrow> jsval \<Rightarrow> jsval \<Rightarrow> err + bool" where
  "bcrypt_compare e v h =
     (case v of
        JStr s \<Rightarrow> (case h of JStr t \<Rightarrow> Inr (bverify e s t) | _ \<Rightarrow> Inl IllegalArguments)
      | _ \<Rightarrow> Inl IllegalArguments)"

subsection \<open>jsonwebtoken\<close>

text \<open>
  \<open>jwt.sign({id}, process.env.JWT_SECRET, {expiresIn: "1h"})\<close> throws when the secret
  is unset or empty.
\<close>

definition jwt_sign :: "env \<Rightarrow> nat \<Rightarrow> err + string" where
  "jwt_sign e uid =
     (case jwt_secret e of
        None \<Rightarrow> Inl SecretMissing
      | Some k \<Rightarrow> if k = [] then Inl SecretMissing else Inr (jwt e uid k))"

subsection \<open>The document store behind the two models\<close>

text \<open>
  A collection is the list of its documents in the store's natural order. From the
  schemas: \<open>required: true\<close> on a path makes \<open>save\<close> fail validation when the value is
  \<open>undefined\<close>, \<open>null\<close> or the empty string; \<open>unique: true\<close> on \<open>email\<close> is a unique index,
  so an insert or update that would give two documents the same email fails; the
  time stamps default to the current time. Casting of values to the schema's types,
  the dropping of keys the schema does not declare and an \<open>_id\<close> chosen by the caller
  are not part of this model: a document holds the keys and values the controller
  passes, under the \<open>_id\<close> the driver generates.
\<close>

definition user_required :: "string list" where
  "user_required = [''username'', ''email'', ''password'']"

definition employee_required :: "string list" where
  "employee_required =
     [''first_name'', ''last_name'', ''email'', ''position'', ''salary'',
      ''date_of_joining'', ''department'']"

definition required_ok :: "jsval \<Rightarrow> bool" where
  "required_ok v = (v \<noteq> Undefined \<and> v \<noteq> Null \<and> v \<noteq> JStr [])"

definition apply_default :: "string \<Rightarrow> jsval \<Rightarrow> obj \<Rightarrow> obj" where
  "apply_default k v ob = (if get ob k = Undefined then AList.update k v ob else ob)"

text \<open>
  \<open>new Model({...})\<close>: keys whose value is \<open>undefined\<close> are not set, the defaults of
  \<open>created_at\<close> and \<open>updated_at\<close> are applied, and the document gets its \<open>_id\<close>.
\<close>

definition new_doc :: "env \<Rightarrow> obj \<Rightarrow> doc" where
  "new_doc e ob =
     \<lparr>oid = new_id e,
      flds = apply_default ''updated_at'' (JDate (now e))
                 (apply_default ''created_at'' (JDate (now e))
                    (filter (\<lambda>(k, v). v \<noteq> Undefined) ob))\<rparr>"

definition email_of :: "doc \<Rightarrow> jsval" where
  "email_of d = get (flds d) ''email''"

text \<open>
  An equality filter \<open>{email: v}\<close>; \<open>undefined\<close> and \<open>null\<close> in a filter match a
  document in which the field is \<open>null\<close> or missing.
\<close>

definition matches_eq :: "jsval \<Rightarrow> jsval \<Rightarrow> bool" where
  "matches_eq q v =
     (if q = Undefined \<or> q = Null then v = Undefined \<or> v = Null else v = q)"

definition findOne_email :: "doc list \<Rightarrow> jsval \<Rightarrow> doc option" where
  "findOne_email ds q = find (\<lambda>d. matches_eq q (email_of d)) ds"

definition save :: "string list \<Rightarrow> doc list \<Rightarrow> doc \<Rightarrow> err + doc list" where
  "save reqd ds d =
     (if \<not> list_all (\<lambda>k. required_ok (get (flds d) k)) reqd then Inl ValidationError
      else if list_ex (\<lambda>d'. oid d' = oid d \<or> email_of d' = email_of d) ds
      then Inl DuplicateKey
      else Inr (ds @ [d]))"

text \<open>
  An identifier reaches the by-id operations as text. A text of 24 hexadecimal digits
  is cast to the ObjectId it writes; any other text is a cast error. For \<open>undefined\<close>
  and \<open>null\<close> the filter is \<open>{_id: null}\<close>, which no document matches.
\<close>

definition hex_digit :: "char \<Rightarrow> nat option" where
  "hex_digit c =
     (let n = (of_char c :: nat) in
      if 48 \<le> n \<and> n \<le> 57 then Some (n - 48)
      else if 97 \<le> n \<and> n \<le> 102 then Some (n - 87)
      else if 65 \<le> n \<and> n \<le> 70 then Some (n - 55)
      else None)"

fun hex_value :: "nat \<Rightarrow> string \<Rightarrow> nat option" where
  "hex_value acc [] = Some acc"
| "hex_value acc (c # cs) =
     (case hex_digit c of None \<Rightarrow> None | Some n \<Rightarrow> hex_value (16 * acc + n) cs)"

definition cast_id :: "jsval \<Rightarrow> err + nat option" where
  "cast_id v =
     (case v of
        JStr s \<Rightarrow>
          (if length s = 24
           then (case hex_value 0 s of None \<Rightarrow> Inl CastError | Some n \<Rightarrow> Inr (Some n))
           else Inl CastError)
      | JOid n \<Rightarrow> Inr (Some n)
      | Undefined \<Rightarrow> Inr None
      | Null \<Rightarrow> Inr None
      | _ \<Rightarrow> Inl CastError)"

definition findById :: "doc list \<Rightarrow> jsval \<Rightarrow> err + doc option" where
  "findById ds v =
     (case cast_id v of
        Inl e \<Rightarrow> Inl e
      | Inr None \<Rightarrow> Inr None
      | Inr (Some i) \<Rightarrow> Inr (find (\<lambda>d. oid d = i) ds))"

fun remove_first :: "('a \<Rightarrow> bool) \<Rightarrow> 'a list \<Rightarrow> 'a list" where
  "remove_first P [] = []"
| "remove_first P (x # xs) = (if P x then xs else x # remove_first P xs)"

fun replace_first :: "('a \<Rightarrow> bool) \<Rightarrow> 'a \<Rightarrow> 'a list \<Rightarrow> 'a list" where
  "replace_first P y [] = []"
| "replace_first P y (x # xs) = (if P x then y # xs else x # replace_first P y xs)"

definition findByIdAndDelete :: "doc list \<Rightarrow> jsval \<Rightarrow> err + (doc option \<times> doc list)" where
  "findByIdAndDelete ds v =
     (case cast_id v of
        Inl e \<Rightarrow> Inl e
      | Inr None \<Rightarrow> Inr (None, ds)
      | Inr (Some i) \<Rightarrow>
          (case find (\<lambda>d. oid d = i) ds of
             None \<Rightarrow> Inr (None, ds)
           | Some d \<Rightarrow> Inr (Some d, remove_first (\<lambda>d. oid d = i) ds)))"

text \<open>
  \<open>findByIdAndUpdate(id, update, {new: true})\<close>: the update is merged onto the
  document found (validators do not run on an update), the unique index on
  \<open>email\<close> still holds, and the updated document is returned.
\<close>

definition findByIdAndUpdate ::
  "doc list \<Rightarrow> jsval \<Rightarrow> obj \<Rightarrow> err + (doc option \<times> doc list)" where
  "findByIdAndUpdate ds v upd =
     (case cast_id v of
        Inl e \<Rightarrow> Inl e
      | Inr None \<Rightarrow> Inr (None, ds)
      | Inr (Some i) \<Rightarrow>
          (case find (\<lambda>d. oid d = i) ds of
             None \<Rightarrow> Inr (None, ds)
           | Some d \<Rightarrow>
               (let d' = d\<lparr>flds := assign (flds d) upd\<rparr> in
                if list_ex (\<lambda>x. oid x \<noteq> i \<and> email_of x = email_of d') ds
                then Inl DuplicateKey
                else Inr (Some d', replace_first (\<lambda>d. oid d = i) d' ds))))"

text \<open>
  \<open>find(filter)\<close> with a filter of \<open>{field: {$regex: v, $options: "i"}}\<close> entries: a
  pattern that is not text is a cast error, a pattern the store rejects is an error,
  and a document matches when each named field is text in which the pattern is found.
\<close>

fun regex_filter :: "env \<Rightarrow> obj \<Rightarrow> err + (doc \<Rightarrow> bool)" where
  "regex_filter e [] = Inr (\<lambda>d. True)"
| "regex_filter e ((k, v) # rest) =
     (case v of
        JStr p \<Rightarrow>
          (case regex_i e p of
             None \<Rightarrow> Inl BadRegex
           | Some m \<Rightarrow>
               (case regex_filter e rest of
                  Inl x \<Rightarrow> Inl x
                | Inr f \<Rightarrow>
                    Inr (\<lambda>d. (case get (flds d) k of JStr s \<Rightarrow> m s | _ \<Rightarrow> False) \<and> f d)))
      | _ \<Rightarrow> Inl CastError)"

definition find_regex :: "env \<Rightarrow> obj \<Rightarrow> doc list \<Rightarrow> err + doc list" where
  "find_regex e flt ds =
     (case regex_filter e flt of Inl x \<Rightarrow> Inl x | Inr f \<Rightarrow> Inr (filter f ds))"

section \<open>The user controllers\<close>

definition respond :: "nat \<Rightarrow> obj \<Rightarrow> response" where
  "respond n ob = \<lparr>status = n, json = JObj ob\<rparr>"

text \<open>\<open>signup\<close> and \<open>login\<close> of src/controllers/userController.js.\<close>

definition signup :: "env \<Rightarrow> request \<Rightarrow> store \<Rightarrow> response \<times> store" where
  "signup e req st =
     (if verrors req \<noteq> [] then
        (respond 400 [(''status'', JBool False), (''errors'', JArr (verrors req))], st)
      else
        let username = get (body req) ''username'';
            email = get (body req) ''email'';
            password = get (body req) ''password''
        in case findOne_email (users st) email of
             Some existingUser \<Rightarrow>
               (respond 400 [(''status'', JBool False),
                             (''message'', JStr ''Email already exists'')], st)
           | None \<Rightarrow>
               (case bcrypt_hash e password of
                  Inl x \<Rightarrow>
                    (respond 500 [(''status'', JBool False), (''message'', JErrMsg x)], st)
                | Inr hashedPassword \<Rightarrow>
                    (let newUser = new_doc e
                           [(''username'', username),
                            (''email'', email),
                            (''password'', JStr hashedPassword),
                            (''created_at'', JDate (now e)),
                            (''updated_at'', JDate (now e))]
                     in case save user_required (users st) newUser of
                          Inl x \<Rightarrow>
                            (respond 500 [(''status'', JBool False),
                                          (''message'', JErrMsg x)], st)
                        | Inr us \<Rightarrow>
                            (respond 201 [(''message'', JStr ''User created successfully.''),
                                          (''user_id'', JOid (oid newUser))],
                             st\<lparr>users := us\<rparr>))))"

definition login :: "env \<Rightarrow> request \<Rightarrow> store \<Rightarrow> response" where
  "login e req st =
     (if verrors req \<noteq> [] then
        respond 400 [(''status'', JBool False), (''errors'', JArr (verrors req))]
      else
        let email = get (body req) ''email'';
            password = get (body req) ''password''
        in case findOne_email (users st) email of
             None \<Rightarrow>
               respond 400 [(''status'', JBool False),
                            (''message'', JStr ''Invalid username or password'')]
           | Some user \<Rightarrow>
               (case bcrypt_compare e password (get (flds user) ''password'') of
                  Inl x \<Rightarrow> respond 500 [(''status'', JBool False), (''message'', JErrMsg x)]
                | Inr isPasswordValid \<Rightarrow>
                    if \<not> isPasswordValid then
                      respond 400 [(''status'', JBool False),
                                   (''message'', JStr ''Invalid username or password'')]
                    else
                      (case jwt_sign e (oid user) of
                         Inl x \<Rightarrow>
                           respond 500 [(''status'', JBool False), (''message'', JErrMsg x)]
                       | Inr token \<Rightarrow>
                           respond 200 [(''message'', JStr ''Login successful.''),
                                        (''jwt_token'', JStr token)])))"

text \<open>
  \<open>signup\<close> and \<open>login\<close> of the documented user controller (src/unnamed/part_002): no
  validation result is read, and the bodies of the 500 answers and of the duplicate
  email answer carry no \<open>status\<close> key.
\<close>

definition signup_doc :: "env \<Rightarrow> request \<Rightarrow> store \<Rightarrow> response \<times> store" where
  "signup_doc e req st =
     (let username = get (body req) ''username'';
          email = get (body req) ''email'';
          password = get (body req) ''password''
      in case findOne_email (users st) email of
           Some existingUser \<Rightarrow>
             (respond 400 [(''message'', JStr ''Email already exists'')], st)
         | None \<Rightarrow>
             (case bcrypt_hash e password of
                Inl x \<Rightarrow> (respond 500 [(''message'', JErrMsg x)], st)
              | Inr hashedPassword \<Rightarrow>
                  (let newUser = new_doc e
                         [(''username'', username),
                          (''email'', email),
                          (''password'', JStr hashedPassword),
                          (''created_at'', JDate (now e)),
                          (''updated_at'', JDate (now e))]
                   in case save user_required (users st) newUser of
                        Inl x \<Rightarrow> (respond 500 [(''message'', JErrMsg x)], st)
                      | Inr us \<Rightarrow>
                          (respond 201 [(''message'', JStr ''User created successfully.''),
                                        (''user_id'', JOid (oid newUser))],
                           st\<lparr>users := us\<rparr>))))"

definition login_doc :: "env \<Rightarrow> request \<Rightarrow> store \<Rightarrow> response" where
  "login_doc e req st =
     (let email = get (body req) ''email'';
          password = get (body req) ''password''
      in case findOne_email (users st) email of
           None \<Rightarrow>
             respond 400 [(''status'', JBool False),
                          (''message'', JStr ''Invalid username or password'')]
         | Some user \<Rightarrow>
             (case bcrypt_compare e password (get (flds user) ''password'') of
                Inl x \<Rightarrow> respond 500 [(''message'', JErrMsg x)]
              | Inr isPasswordValid \<Rightarrow>
                  if \<not> isPasswordValid then
                    respond 400 [(''status'', JBool False),
                                 (''message'', JStr ''Invalid username or password'')]
                  else
                    (case jwt_sign e (oid user) of
                       Inl x \<Rightarrow> respond 500 [(''message'', JErrMsg x)]
                     | Inr token \<Rightarrow>
                         respond 200 [(''message'', JStr ''Login successful.''),
                                      (''jwt_token'', JStr token)])))"

text \<open>
  The route \<open>GET /test\<close> of the first server entry point (src/unnamed/part_000). The
  handler has no \<open>try\<close>: when \<open>save\<close> rejects, no response is sent.
\<close>

definition test_route :: "env \<Rightarrow> store \<Rightarrow> response option \<times> store" where
  "test_route e st =
     (let user = new_doc e
            [(''username'', JStr ''test''),
             (''email'', JStr ''test@email.com''),
             (''password'', JStr ''123456'')]
      in case save user_required (users st) user of
           Inl x \<Rightarrow> (None, st)
         | Inr us \<Rightarrow>
             (Some \<lparr>status = 200, json = JObj [(''message'', JStr ''Test user saved!'')]\<rparr>,
              st\<lparr>users := us\<rparr>))"

section \<open>The employee controllers\<close>


definition createEmployee :: "env \<Rightarrow> request \<Rightarrow> store \<Rightarrow> response \<times> store" where
  "createEmployee e req st =
     (let first_name = get (body req) ''first_name'';
          last_name = get (body req) ''last_name'';
          email = get (body req) ''email'';
          position = get (body req) ''position'';
          salary = get (body req) ''salary'';
          date_of_joining = get (body req) ''date_of_joining'';
          department = get (body req) ''department''
      in if \<not> truthy first_name \<or> \<not> truthy last_name \<or> \<not> truthy email \<or>
            \<not> truthy position \<or> \<not> truthy salary \<or> \<not> truthy date_of_joining \<or>
            \<not> truthy department
         then (respond 400 [(''status'', JBool False),
                            (''message'', JStr ''All fields are required'')], st)
         else
           (case findOne_email (employees st) email of
              Some existingEmployee \<Rightarrow>
                (respond 400 [(''status'', JBool False),
                              (''message'', JStr ''Employee with this email already exists'')],
                 st)
            | None \<Rightarrow>
                (let imagePath = (case req_file req of
                                    Some filename \<Rightarrow> JStr (''/uploads/'' @ filename)
                                  | None \<Rightarrow> Null);
                     employee = new_doc e
                       [(''first_name'', first_name),
                        (''last_name'', last_name),
                        (''email'', email),
                        (''position'', position),
                        (''salary'', salary),
                        (''date_of_joining'', date_of_joining),
                        (''department'', department),
                        (''profileImageUrl'', imagePath),
                        (''created_at'', JDate (now e)),
                        (''updated_at'', JDate (now e))]
                 in case save employee_required (employees st) employee of
                      Inl x \<Rightarrow>
                        (respond 500 [(''status'', JBool False), (''message'', JErrMsg x)], st)
                    | Inr es \<Rightarrow>
                        (respond 201
                           [(''message'', JStr ''Employee created successfully.''),
                            (''employee_id'', JOid (oid employee)),
                            (''profileImageUrl'', get (flds employee) ''profileImageUrl'')],
                         st\<lparr>employees := es\<rparr>))))"




definition searchEmployees :: "env \<Rightarrow> request \<Rightarrow> store \<Rightarrow> response \<times> store" where
  "searchEmployees e req st =
     (let department = get (query req) ''department'';
          position = get (query req) ''position'';
          flt = [];
          flt = (if truthy department then assign flt [(''department'', department)] else flt);
          flt = (if truthy position then assign flt [(''position'', position)] else flt)
      in case find_regex e flt (employees st) of
           Inl x \<Rightarrow> (respond 500 [(''status'', JBool False), (''message'', JErrMsg x)], st)
         | Inr results \<Rightarrow> (\<lparr>status = 200, json = JArr (map doc_json results)\<rparr>, st))"

text \<open>
  The documented controller (src/routes/employeeRoutes.js, lines 254 to 514): no
  required-field check and no email lookup before the insert, the whole body is the
  new document, the identifier of a delete is read from the query, and a delete
  answers 204.
\<close>

definition getAllEmployees_doc :: "env \<Rightarrow> request \<Rightarrow> store \<Rightarrow> response \<times> store" where
  "getAllEmployees_doc e req st =
     (\<lparr>status = 200, json = JArr (map doc_json (employees st))\<rparr>, st)"

definition createEmployee_doc :: "env \<Rightarrow> request \<Rightarrow> store \<Rightarrow> response \<times> store" where
  "createEmployee_doc e req st =
     (let employee = new_doc e
            (assign (body req)
               [(''created_at'', JDate (now e)), (''updated_at'', JDate (now e))])
      in case save employee_required (employees st) employee of
           Inl x \<Rightarrow> (respond 500 [(''message'', JErrMsg x)], st)
         | Inr es \<Rightarrow>
             (respond 201 [(''message'', JStr ''Employee created successfully.''),
                           (''employee_id'', JOid (oid employee))],
              st\<lparr>employees := es\<rparr>))"

definition getEmployeeById_doc :: "env \<Rightarrow> request \<Rightarrow> store \<Rightarrow> response \<times> store" where
  "getEmployeeById_doc e req st =
     (case findById (employees st) (get (params req) ''eid'') of
        Inl x \<Rightarrow> (respond 500 [(''message'', JErrMsg x)], st)
      | Inr None \<Rightarrow> (respond 404 [(''message'', JStr ''Employee not found.'')], st)
      | Inr (Some employee) \<Rightarrow> (\<lparr>status = 200, json = doc_json employee\<rparr>, st))"

definition updateEmployee_doc :: "env \<Rightarrow> request \<Rightarrow> store \<Rightarrow> response \<times> store" where
  "updateEmployee_doc e req st =
     (case findByIdAndUpdate (employees st) (get (params req) ''eid'')
             (assign (body req) [(''updated_at'', JDate (now e))]) of
        Inl x \<Rightarrow> (respond 500 [(''message'', JErrMsg x)], st)
      | Inr (None, es) \<Rightarrow> (respond 404 [(''message'', JStr ''Employee not found.'')], st)
      | Inr (Some updated, es) \<Rightarrow>
          (respond 200 [(''message'', JStr ''Employee details updated successfully.'')],
           st\<lparr>employees := es\<rparr>))"

definition deleteEmployee_doc :: "env \<Rightarrow> request \<Rightarrow> store \<Rightarrow> response \<times> store" where
  "deleteEmployee_doc e req st =
     (let eid = get (query req) ''eid''
      in case findByIdAndDelete (employees st) eid of
           Inl x \<Rightarrow> (respond 500 [(''message'', JErrMsg x)], st)
         | Inr (None, es) \<Rightarrow> (respond 404 [(''message'', JStr ''Employee not found.'')], st)
         | Inr (Some deleted, es) \<Rightarrow>
             (respond 204 [(''message'', JStr ''Employee deleted successfully.'')],
              st\<lparr>employees := es\<rparr>))"

section \<open>The employee routers\<close>

text \<open>
  A route pattern is a list of segments, \<open>:name\<close> binding the segment of the path at
  its place into \<open>req.params\<close>; a path is the list of its segments. A router answers
  with the first route whose verb and pattern match; \<open>upload.single\<close> before a
  handler is what sets \<open>req.file\<close>.
\<close>

datatype seg = Static string | Param string

datatype verb = GET | POST | PUT | DELETE


type_synonym handler = "env \<Rightarrow> request \<Rightarrow> store \<Rightarrow> response \<times> store"

record route =
  r_verb :: verb
  r_path :: "seg list"
  r_upload :: bool
  r_handler :: handler


text \<open>
  The five handlers a router imports from \<open>../controllers/employeeController.js\<close>.
\<close>

record controller =
  c_getAllEmployees :: handler
  c_createEmployee :: handler
  c_getEmployeeById :: handler
  c_updateEmployee :: handler
  c_deleteEmployee :: handler


definition employeeController_doc :: controller where
  "employeeController_doc =
     \<lparr>c_getAllEmployees = getAllEmployees_doc,
      c_createEmployee = createEmployee_doc,
      c_getEmployeeById = getEmployeeById_doc,
      c_updateEmployee = updateEmployee_doc,
      c_deleteEmployee = deleteEmployee_doc\<rparr>"


text \<open>The router of src/unnamed/part_001, with the search route and the uploads.\<close>

definition employeeRoutes_upload :: "controller \<Rightarrow> handler \<Rightarrow> route list" where
  "employeeRoutes_upload c search =
     [\<lparr>r_verb = GET, r_path = [Static ''employees'', Static ''search''], r_upload = False,
       r_handler = search\<rparr>,
      \<lparr>r_verb = GET, r_path = [Static ''employees''], r_upload = False,
       r_handler = c_getAllEmployees c\<rparr>,
      \<lparr>r_verb = GET, r_path = [Static ''employees'', Param ''eid''], r_upload = False,
       r_handler = c_getEmployeeById c\<rparr>,
      \<lparr>r_verb = POST, r_path = [Static ''employees''], r_upload = True,
       r_handler = c_createEmployee c\<rparr>,
      \<lparr>r_verb = PUT, r_path = [Static ''employees'', Param ''eid''], r_upload = True,
       r_handler = c_updateEmployee c\<rparr>,
      \<lparr>r_verb = DELETE, r_path = [Static ''employees'', Param ''eid''], r_upload = False,
       r_handler = c_deleteEmployee c\<rparr>]"

section \<open>Text matching\<close>

text \<open>
  Case-insensitive containment of one text in another, on ASCII letters: what the
  specification calls a case-insensitive substring match.
\<close>

definition to_lower :: "char \<Rightarrow> char" where
  "to_lower c =
     (let n = (of_char c :: nat) in if 65 \<le> n \<and> n \<le> 90 then char_of (n + 32) else c)"

definition ci_contains :: "string \<Rightarrow> string \<Rightarrow> bool" where
  "ci_contains p s = sublist (map to_lower p) (map to_lower s)"

text \<open>
  A regular-expression search for the patterns made of ordinary characters and the
  dot, which stands for any character but the line feed. It is the instance of
  \<open>regex_i\<close> the concrete evaluations below use; a pattern with any other
  metacharacter is outside it and is answered \<open>None\<close>.
\<close>

datatype tok = AnyChar | Lit char

definition regex_meta :: "char \<Rightarrow> bool" where
  "regex_meta c = (c \<in> set ''^$.|?*+()[]{}'' \<or> c = CHR 0x5C)"

definition tok_of :: "char \<Rightarrow> tok option" where
  "tok_of c = (if c = CHR ''.'' then Some AnyChar
               else if regex_meta c then None
               else Some (Lit c))"

fun parse_frag :: "string \<Rightarrow> tok list option" where
  "parse_frag [] = Some []"
| "parse_frag (c # cs) =
     (case tok_of c of
        None \<Rightarrow> None
      | Some t \<Rightarrow> (case parse_frag cs of None \<Rightarrow> None | Some ts \<Rightarrow> Some (t # ts)))"

fun tok_match :: "tok \<Rightarrow> char \<Rightarrow> bool" where
  "tok_match AnyChar c = (c \<noteq> CHR 0x0A)"
| "tok_match (Lit a) c = (to_lower a = to_lower c)"

fun match_here :: "tok list \<Rightarrow> string \<Rightarrow> bool" where
  "match_here [] s = True"
| "match_here (t # ts) [] = False"
| "match_here (t # ts) (c # cs) = (tok_match t c \<and> match_here ts cs)"

fun search_toks :: "tok list \<Rightarrow> string \<Rightarrow> bool" where
  "search_toks ts [] = match_here ts []"
| "search_toks ts (c # cs) = (match_here ts (c # cs) \<or> search_toks ts cs)"

definition regex_frag :: "string \<Rightarrow> (string \<Rightarrow> bool) option" where
  "regex_frag p = map_option search_toks (parse_frag p)"

section \<open>Documents named in the properties\<close>

text \<open>The user document a successful signup stores.\<close>

definition stored_user :: "env \<Rightarrow> string \<Rightarrow> string \<Rightarrow> string \<Rightarrow> doc" where
  "stored_user e un em pw =
     \<lparr>oid = new_id e,
      flds = [(''username'', JStr un), (''email'', JStr em),
              (''password'', JStr (bhash e pw)),
              (''created_at'', JDate (now e)), (''updated_at'', JDate (now e))]\<rparr>"


text \<open>
  Search as the specification words it: each supplied filter keeps the employees
  whose field contains the filter text as a case-insensitive substring, two filters
  are combined by "and", and an absent (or empty) filter keeps every employee.
\<close>

definition field_contains :: "string \<Rightarrow> jsval \<Rightarrow> doc \<Rightarrow> bool" where
  "field_contains k q d =
     (case q of
        JStr p \<Rightarrow>
          p = [] \<or> (case get (flds d) k of JStr s \<Rightarrow> ci_contains p s | _ \<Rightarrow> False)
      | _ \<Rightarrow> True)"

definition spec_search :: "jsval \<Rightarrow> jsval \<Rightarrow> doc list \<Rightarrow> doc list" where
  "spec_search department position ds =
     filter (\<lambda>d. field_contains ''department'' department d \<and>
                 field_contains ''position'' position d) ds"

section \<open>Sample data\<close>

text \<open>
  A concrete environment, store and requests, on which the theorems below are
  instantiated. The sample hash of a password is its reversal behind a \<open>#\<close>.
\<close>

definition demo_env :: env where
  "demo_env =
     \<lparr>now = 1000, new_id = 2,
      bhash = (\<lambda>s. CHR ''#'' # rev s),
      bverify = (\<lambda>s h. h = CHR ''#'' # rev s),
      jwt_secret = Some ''k'',
      jwt = (\<lambda>uid k. k @ replicate uid CHR ''.''),
      regex_i = regex_frag\<rparr>"

definition demo_user :: doc where
  "demo_user =
     \<lparr>oid = 1,
      flds = [(''username'', JStr ''a''), (''email'', JStr ''a@x.com''),
              (''password'', JStr ''#1terces''),
              (''created_at'', JDate 900), (''updated_at'', JDate 900)]\<rparr>"

definition demo_engineer :: doc where
  "demo_engineer =
     \<lparr>oid = 10,
      flds = [(''first_name'', JStr ''Ada''), (''last_name'', JStr ''Byron''),
              (''email'', JStr ''ada@x.com''), (''position'', JStr ''Developer''),
              (''salary'', JNum 75000), (''date_of_joining'', JStr ''2024-01-15''),
              (''department'', JStr ''Engineering''),
              (''profileImageUrl'', JStr ''/uploads/ada.png''),
              (''created_at'', JDate 900), (''updated_at'', JDate 900)]\<rparr>"

definition demo_seller :: doc where
  "demo_seller =
     \<lparr>oid = 11,
      flds = [(''first_name'', JStr ''Bob''), (''last_name'', JStr ''Cole''),
              (''email'', JStr ''bob@x.com''), (''position'', JStr ''Agent''),
              (''salary'', JNum 50000), (''date_of_joining'', JStr ''2023-05-01''),
              (''department'', JStr ''Sales''),
              (''profileImageUrl'', Null),
              (''created_at'', JDate 900), (''updated_at'', JDate 900)]\<rparr>"

definition demo_store :: store where
  "demo_store = \<lparr>users = [demo_user], employees = [demo_engineer, demo_seller]\<rparr>"

definition mk_request :: "obj \<Rightarrow> request" where
  "mk_request b = \<lparr>body = b, params = [], query = [], req_file = None, verrors = []\<rparr>"

definition demo_employee_body :: obj where
  "demo_employee_body =
     [(''first_name'', JStr ''Cy''), (''last_name'', JStr ''Dee''),
      (''email'', JStr ''cy@x.com''), (''position'', JStr ''Clerk''),
      (''salary'', JNum 40000), (''date_of_joining'', JStr ''2025-02-01''),
      (''department'', JStr ''Finance'')]"



definition demo_signup_body :: obj where
  "demo_signup_body =
     [(''username'', JStr ''b''), (''email'', JStr ''b@x.com''), (''password'', JStr ''pw'')]"

definition demo_signup_taken :: obj where
  "demo_signup_taken =
     [(''username'', JStr ''c''), (''email'', JStr ''a@x.com''), (''password'', JStr ''pw'')]"

definition demo_signup_no_password :: obj where
  "demo_signup_no_password = [(''username'', JStr ''b''), (''email'', JStr ''b@x.com'')]"



definition demo_search :: "obj \<Rightarrow> request" where
  "demo_search q = \<lparr>body = [], params = [], query = q, req_file = None, verrors = []\<rparr>"

definition demo_signup_no_username :: obj where
  "demo_signup_no_username = [(''email'', JStr ''b@x.com''), (''password'', JStr ''pw'')]"

section \<open>Properties\<close>

subsection \<open>Objects and new documents\<close>











subsection \<open>Login failures\<close>

text \<open>
  Claim C1. A login that fails because no user has the email and a login that fails
  because the password is wrong answer alike: in either controller both answers are
  status 400 with the same body, whose message is "Invalid username or password".
\<close>

theorem login_failures_indistinguishable:
  assumes "findOne_email (users st1) (get (body req1) ''email'') = None"
    and "findOne_email (users st2) (get (body req2) ''email'') = Some u"
    and "bcrypt_compare e2 (get (body req2) ''password'') (get (flds u) ''password'') = Inr False"
  shows "(verrors req1 = [] \<and> verrors req2 = [] \<longrightarrow>
            login e1 req1 st1 = login e2 req2 st2 \<and>
            login e1 req1 st1 =
              respond 400 [(''status'', JBool False),
                           (''message'', JStr ''Invalid username or password'')]) \<and>
         status (login e1 req1 st1) = 400 \<and> status (login e2 req2 st2) = 400 \<and>
         login_doc e1 req1 st1 = login_doc e2 req2 st2 \<and>
         login_doc e1 req1 st1 =
           respond 400 [(''status'', JBool False),
                        (''message'', JStr ''Invalid username or password'')]"
  using assms by (simp add: login_def login_doc_def respond_def)

theorem login_failures_indistinguishable_witness:
  "login demo_env (mk_request [(''email'', JStr ''b@x.com''), (''password'', JStr ''secret1'')])
     demo_store =
   login demo_env (mk_request [(''email'', JStr ''a@x.com''), (''password'', JStr ''wrong'')])
     demo_store \<and>
   status (login demo_env
             (mk_request [(''email'', JStr ''b@x.com''), (''password'', JStr ''secret1'')])
             demo_store) = 400 \<and>
   login_doc demo_env
     (mk_request [(''email'', JStr ''b@x.com''), (''password'', JStr ''secret1'')]) demo_store =
   login_doc demo_env
     (mk_request [(''email'', JStr ''a@x.com''), (''password'', JStr ''wrong'')]) demo_store"
proof -
  let ?r1 = "mk_request [(''email'', JStr ''b@x.com''), (''password'', JStr ''secret1'')]"
  let ?r2 = "mk_request [(''email'', JStr ''a@x.com''), (''password'', JStr ''wrong'')]"
  have h1: "findOne_email (users demo_store) (get (body ?r1) ''email'') = None"
    by (simp add: findOne_email_def demo_store_def demo_user_def mk_request_def get_def
        matches_eq_def email_of_def)
  have h2: "findOne_email (users demo_store) (get (body ?r2) ''email'') = Some demo_user"
    by (simp add: findOne_email_def demo_store_def demo_user_def mk_request_def get_def
        matches_eq_def email_of_def)
  have h3: "bcrypt_compare demo_env (get (body ?r2) ''password'')
              (get (flds demo_user) ''password'') = Inr False"
    by (simp add: bcrypt_compare_def demo_env_def demo_user_def mk_request_def get_def)
  have v: "verrors ?r1 = []" "verrors ?r2 = []" by (simp_all add: mk_request_def)
  from login_failures_indistinguishable [OF h1 h2 h3, where ?e1.0 = demo_env] v
  show ?thesis by simp
qed

subsection \<open>Creating an employee\<close>


lemma createEmployee_falsy:
  assumes "k \<in> set employee_required" and "\<not> truthy (get (body req) k)"
  shows "createEmployee e req st =
           (respond 400 [(''status'', JBool False),
                         (''message'', JStr ''All fields are required'')], st)"
  using assms by (auto simp: createEmployee_def employee_required_def)


lemma createEmployee_existing_email_message:
  assumes "findOne_email (employees st) (get (body req) ''email'') = Some u"
    and "\<forall>k\<in>set employee_required. truthy (get (body req) k)"
  shows "createEmployee e req st =
           (respond 400 [(''status'', JBool False),
                         (''message'', JStr ''Employee with this email already exists'')], st)"
  using assms by (simp add: createEmployee_def employee_required_def)


lemma save_cases:
  "save reqd ds d = Inr es \<Longrightarrow> es = ds @ [d]"
  by (simp add: save_def split: if_splits)


text \<open>
  Claim C9. In the controller that checks the required fields, a request whose salary
  is the number 0, or in which a required field is the empty text, is answered
  400 "All fields are required" and nothing is stored, whatever the other fields are:
  the check is by truthiness.
\<close>

theorem createEmployee_rejects_falsy_fields:
  assumes "get (body req) ''salary'' = JNum 0 \<or>
           (\<exists>k\<in>set employee_required. get (body req) k = JStr [])"
  shows "createEmployee e req st =
           (respond 400 [(''status'', JBool False),
                         (''message'', JStr ''All fields are required'')], st)"
  using assms
proof
  assume "get (body req) ''salary'' = JNum 0"
  then have "\<not> truthy (get (body req) ''salary'')" by simp
  moreover have "''salary'' \<in> set employee_required" by (simp add: employee_required_def)
  ultimately show ?thesis by (rule createEmployee_falsy [rotated])
next
  assume "\<exists>k\<in>set employee_required. get (body req) k = JStr []"
  then obtain k where "k \<in> set employee_required" and "get (body req) k = JStr []"
    by blast
  then show ?thesis using createEmployee_falsy [of k req e st] by simp
qed

theorem createEmployee_rejects_falsy_fields_witness:
  "createEmployee demo_env (mk_request (AList.update ''salary'' (JNum 0) demo_employee_body))
     demo_store =
   (respond 400 [(''status'', JBool False), (''message'', JStr ''All fields are required'')],
    demo_store) \<and>
   createEmployee demo_env (mk_request (AList.update ''position'' (JStr []) demo_employee_body))
     demo_store =
   (respond 400 [(''status'', JBool False), (''message'', JStr ''All fields are required'')],
    demo_store)"
proof -
  have h1: "get (body (mk_request (AList.update ''salary'' (JNum 0) demo_employee_body)))
              ''salary'' = JNum 0"
    by code_simp
  have h2: "get (body (mk_request (AList.update ''position'' (JStr []) demo_employee_body)))
              ''position'' = JStr []"
    by code_simp
  have m: "''position'' \<in> set employee_required" by (simp add: employee_required_def)
  from createEmployee_rejects_falsy_fields [OF disjI1, OF h1]
       createEmployee_rejects_falsy_fields [OF disjI2, OF bexI, OF h2 m]
  show ?thesis by simp
qed



subsection \<open>Rejected creates\<close>












subsection \<open>Signup\<close>

lemma signup_existing:
  assumes "findOne_email (users st) (get (body req) ''email'') = Some u"
  shows "status (fst (signup e req st)) = 400 \<and> snd (signup e req st) = st \<and>
         (verrors req = [] \<longrightarrow>
            signup e req st =
              (respond 400 [(''status'', JBool False),
                            (''message'', JStr ''Email already exists'')], st)) \<and>
         signup_doc e req st = (respond 400 [(''message'', JStr ''Email already exists'')], st)"
  using assms by (simp add: signup_def signup_doc_def respond_def)

lemma findOne_email_None_text:
  "findOne_email ds (JStr em) = None \<longleftrightarrow> (\<forall>d\<in>set ds. email_of d \<noteq> JStr em)"
  by (auto simp: findOne_email_def find_None_iff matches_eq_def)

lemma findOne_email_Some_text:
  "d \<in> set ds \<Longrightarrow> email_of d = JStr em \<Longrightarrow> \<exists>u. findOne_email ds (JStr em) = Some u"
  by (cases "findOne_email ds (JStr em)") (auto simp: findOne_email_None_text)

lemma save_new_user:
  assumes "un \<noteq> []" and "em \<noteq> []" and "h \<noteq> []"
    and "findOne_email ds (JStr em) = None" and "i \<notin> oid ` set ds"
    and "flds d = [(''username'', JStr un), (''email'', JStr em), (''password'', JStr h),
            (''created_at'', JDate t), (''updated_at'', JDate t)]"
    and "oid d = i"
  shows "save user_required ds d = Inr (ds @ [d])"
proof -
  have r: "list_all (\<lambda>k. required_ok (get (flds d) k)) user_required"
    using assms(1-3) by (simp add: assms(6) user_required_def required_ok_def get_def)
  have e: "email_of d = JStr em" by (simp add: email_of_def assms(6) get_def)
  have n: "\<not> list_ex (\<lambda>d'. oid d' = oid d \<or> email_of d' = email_of d) ds"
    using assms(4,5) by (auto simp: list_ex_iff e assms(7) findOne_email_None_text)
  from r n show ?thesis by (simp add: save_def)
qed

lemma new_user_doc:
  "new_doc e [(''username'', JStr un), (''email'', JStr em), (''password'', JStr (bhash e pw)),
              (''created_at'', JDate (now e)), (''updated_at'', JDate (now e))] =
   stored_user e un em pw"
  by (simp add: stored_user_def new_doc_def apply_default_def get_def)

lemma save_stored_user:
  assumes "un \<noteq> []" and "em \<noteq> []" and "bhash e pw \<noteq> []"
    and "findOne_email ds (JStr em) = None" and "new_id e \<notin> oid ` set ds"
  shows "save user_required ds (stored_user e un em pw) = Inr (ds @ [stored_user e un em pw])"
  using assms by (intro save_new_user [where t = "now e"]) (simp_all add: stored_user_def)

lemma signup_new:
  assumes "get (body req) ''username'' = JStr un" and "un \<noteq> []"
    and "get (body req) ''email'' = JStr em" and "em \<noteq> []"
    and "get (body req) ''password'' = JStr pw" and "bhash e pw \<noteq> []"
    and "findOne_email (users st) (JStr em) = None"
    and "new_id e \<notin> oid ` set (users st)"
  shows "(verrors req = [] \<longrightarrow>
          signup e req st =
            (respond 201 [(''message'', JStr ''User created successfully.''),
                          (''user_id'', JOid (new_id e))],
             st\<lparr>users := users st @ [stored_user e un em pw]\<rparr>)) \<and>
         signup_doc e req st =
            (respond 201 [(''message'', JStr ''User created successfully.''),
                          (''user_id'', JOid (new_id e))],
             st\<lparr>users := users st @ [stored_user e un em pw]\<rparr>)"
proof -
  have s: "save user_required (users st) (stored_user e un em pw) =
             Inr (users st @ [stored_user e un em pw])"
    using assms(2,4,6,7,8) by (rule save_stored_user)
  have o: "oid (stored_user e un em pw) = new_id e" by (simp add: stored_user_def)
  show ?thesis
    using assms(1,3,5,7)
    by (simp add: signup_def signup_doc_def bcrypt_hash_def new_user_doc s o)
qed

lemma signup_again:
  assumes "get (body req') ''email'' = JStr em"
    and "users st' = ds @ [stored_user e un em pw]"
  shows "status (fst (signup e' req' st')) = 400 \<and> snd (signup e' req' st') = st' \<and>
         signup_doc e' req' st' =
           (respond 400 [(''message'', JStr ''Email already exists'')], st')"
proof -
  have "email_of (stored_user e un em pw) = JStr em"
    by (simp add: email_of_def stored_user_def get_def)
  with assms(2) obtain u where "findOne_email (users st') (JStr em) = Some u"
    using findOne_email_Some_text [of "stored_user e un em pw" "users st'" em] by auto
  with assms(1) signup_existing [of st' req' u e'] show ?thesis by simp
qed

text \<open>
  Claim C4, as the code has it. A signup whose email matches a stored user is answered
  400 and stores nothing (with the message "Email already exists", unless the
  validation result is reported first). A signup that passes validation, whose
  username and email are non-empty text and whose password is text, with an email
  no stored user has, is answered 201 with the new identifier and stores the user
  with the hashed password; after it, every signup with that email is answered 400
  and stores nothing.
\<close>

theorem signup_existing_and_new_email:
  "(findOne_email (users st) (get (body req) ''email'') = Some u \<longrightarrow>
      status (fst (signup e req st)) = 400 \<and> snd (signup e req st) = st \<and>
      (verrors req = [] \<longrightarrow>
         signup e req st =
           (respond 400 [(''status'', JBool False),
                         (''message'', JStr ''Email already exists'')], st)) \<and>
      signup_doc e req st = (respond 400 [(''message'', JStr ''Email already exists'')], st)) \<and>
   (get (body req) ''username'' = JStr un \<and> un \<noteq> [] \<and>
    get (body req) ''email'' = JStr em \<and> em \<noteq> [] \<and>
    get (body req) ''password'' = JStr pw \<and> bhash e pw \<noteq> [] \<and>
    findOne_email (users st) (JStr em) = None \<and> new_id e \<notin> oid ` set (users st) \<longrightarrow>
      (verrors req = [] \<longrightarrow>
         signup e req st =
           (respond 201 [(''message'', JStr ''User created successfully.''),
                         (''user_id'', JOid (new_id e))],
            st\<lparr>users := users st @ [stored_user e un em pw]\<rparr>)) \<and>
      signup_doc e req st =
        (respond 201 [(''message'', JStr ''User created successfully.''),
                      (''user_id'', JOid (new_id e))],
         st\<lparr>users := users st @ [stored_user e un em pw]\<rparr>) \<and>
      (get (body req') ''email'' = JStr em \<longrightarrow>
         status (fst (signup e' req' (st\<lparr>users := users st @ [stored_user e un em pw]\<rparr>))) = 400 \<and>
         snd (signup e' req' (st\<lparr>users := users st @ [stored_user e un em pw]\<rparr>)) =
           st\<lparr>users := users st @ [stored_user e un em pw]\<rparr> \<and>
         signup_doc e' req' (st\<lparr>users := users st @ [stored_user e un em pw]\<rparr>) =
           (respond 400 [(''message'', JStr ''Email already exists'')],
            st\<lparr>users := users st @ [stored_user e un em pw]\<rparr>)))"
proof (intro conjI impI)
  assume a: "findOne_email (users st) (get (body req) ''email'') = Some u"
  from signup_existing [OF a, of e]
  show "status (fst (signup e req st)) = 400" and "snd (signup e req st) = st"
    and "signup_doc e req st = (respond 400 [(''message'', JStr ''Email already exists'')], st)"
    by simp_all
  assume "verrors req = []"
  with signup_existing [OF a, of e]
  show "signup e req st =
          (respond 400 [(''status'', JBool False),
                        (''message'', JStr ''Email already exists'')], st)"
    by simp
next
  assume b: "get (body req) ''username'' = JStr un \<and> un \<noteq> [] \<and>
    get (body req) ''email'' = JStr em \<and> em \<noteq> [] \<and>
    get (body req) ''password'' = JStr pw \<and> bhash e pw \<noteq> [] \<and>
    findOne_email (users st) (JStr em) = None \<and> new_id e \<notin> oid ` set (users st)"
  then have n: "(verrors req = [] \<longrightarrow>
          signup e req st =
            (respond 201 [(''message'', JStr ''User created successfully.''),
                          (''user_id'', JOid (new_id e))],
             st\<lparr>users := users st @ [stored_user e un em pw]\<rparr>)) \<and>
         signup_doc e req st =
            (respond 201 [(''message'', JStr ''User created successfully.''),
                          (''user_id'', JOid (new_id e))],
             st\<lparr>users := users st @ [stored_user e un em pw]\<rparr>)"
    by (intro signup_new) simp_all
  from n show "signup_doc e req st =
            (respond 201 [(''message'', JStr ''User created successfully.''),
                          (''user_id'', JOid (new_id e))],
             st\<lparr>users := users st @ [stored_user e un em pw]\<rparr>)" by simp
  {
    assume "verrors req = []"
    with n show "signup e req st =
            (respond 201 [(''message'', JStr ''User created successfully.''),
                          (''user_id'', JOid (new_id e))],
             st\<lparr>users := users st @ [stored_user e un em pw]\<rparr>)" by simp
  }
  let ?st = "st\<lparr>users := users st @ [stored_user e un em pw]\<rparr>"
  assume c: "get (body req') ''email'' = JStr em"
  have u: "users ?st = users st @ [stored_user e un em pw]" by simp
  from signup_again [OF c u, of e']
  show "status (fst (signup e' req' ?st)) = 400" and "snd (signup e' req' ?st) = ?st"
    and "signup_doc e' req' ?st =
           (respond 400 [(''message'', JStr ''Email already exists'')], ?st)"
    by simp_all
qed

theorem signup_existing_and_new_email_witness:
  "signup demo_env (mk_request demo_signup_body) demo_store =
     (respond 201 [(''message'', JStr ''User created successfully.''), (''user_id'', JOid 2)],
      demo_store\<lparr>users := users demo_store @
                         [stored_user demo_env ''b'' ''b@x.com'' ''pw'']\<rparr>) \<and>
   status (fst (signup demo_env (mk_request demo_signup_body)
                  (demo_store\<lparr>users := users demo_store @
                                     [stored_user demo_env ''b'' ''b@x.com'' ''pw'']\<rparr>))) = 400 \<and>
   status (fst (signup demo_env (mk_request demo_signup_taken) demo_store)) = 400 \<and>
   snd (signup demo_env (mk_request demo_signup_taken) demo_store) = demo_store \<and>
   signup_doc demo_env (mk_request demo_signup_taken) demo_store =
     (respond 400 [(''message'', JStr ''Email already exists'')], demo_store)"
proof -
  let ?r = "mk_request demo_signup_body" and ?t = "mk_request demo_signup_taken"
  have h: "get (body ?r) ''username'' = JStr ''b''" "''b'' \<noteq> []"
      "get (body ?r) ''email'' = JStr ''b@x.com''" "''b@x.com'' \<noteq> []"
      "get (body ?r) ''password'' = JStr ''pw''" "bhash demo_env ''pw'' \<noteq> []"
      "findOne_email (users demo_store) (JStr ''b@x.com'') = None"
      "new_id demo_env \<notin> oid ` set (users demo_store)"
      "verrors ?r = []" "new_id demo_env = 2"
    by code_simp+
  have t: "findOne_email (users demo_store) (get (body ?t) ''email'') = Some demo_user"
    by code_simp
  from signup_existing_and_new_email
         [of demo_store ?t demo_user demo_env]
       signup_existing_and_new_email
         [of demo_store ?r _ demo_env "''b''" "''b@x.com''" "''pw''" ?r demo_env]
       h t
  show ?thesis by simp
qed

text \<open>
  Claim C4, as stated, fails for a signup with an unused email that is not valid:
  with validation errors the first controller answers 400; without a password
  \<open>bcrypt.hash\<close> rejects and either controller answers 500; without a username
  \<open>save\<close> rejects and the answer is 500. None of them stores a user.
\<close>

theorem signup_unused_email_not_created:
  "findOne_email (users demo_store) (JStr ''b@x.com'') = None \<and>
   get (body (mk_request demo_signup_body)) ''email'' = JStr ''b@x.com'' \<and>
   status (fst (signup demo_env ((mk_request demo_signup_body)\<lparr>verrors := [JStr ''Invalid value'']\<rparr>)
                  demo_store)) = 400 \<and>
   snd (signup demo_env ((mk_request demo_signup_body)\<lparr>verrors := [JStr ''Invalid value'']\<rparr>)
          demo_store) = demo_store \<and>
   get (body (mk_request demo_signup_no_password)) ''email'' = JStr ''b@x.com'' \<and>
   signup demo_env (mk_request demo_signup_no_password) demo_store =
     (respond 500 [(''status'', JBool False), (''message'', JErrMsg IllegalArguments)],
      demo_store) \<and>
   signup_doc demo_env (mk_request demo_signup_no_password) demo_store =
     (respond 500 [(''message'', JErrMsg IllegalArguments)], demo_store) \<and>
   get (body (mk_request demo_signup_no_username)) ''email'' = JStr ''b@x.com'' \<and>
   signup_doc demo_env (mk_request demo_signup_no_username) demo_store =
     (respond 500 [(''message'', JErrMsg ValidationError)], demo_store)"
  by code_simp

subsection \<open>The test route\<close>

lemma test_user_flds:
  "flds (new_doc e [(''username'', JStr ''test''), (''email'', JStr ''test@email.com''),
                    (''password'', JStr ''123456'')]) =
   [(''username'', JStr ''test''), (''email'', JStr ''test@email.com''),
    (''password'', JStr ''123456''), (''created_at'', JDate (now e)),
    (''updated_at'', JDate (now e))]"
  by (simp add: new_doc_def apply_default_def get_def)

text \<open>
  Claim C2 says that every stored user holds a hashed password. Signup stores
  \<open>bhash e pw\<close> (see \<open>stored_user\<close> above), but the route \<open>GET /test\<close> does not:
  whenever it answers, the user it has stored holds the text "123456" that the
  handler wrote, which went through no hash.
\<close>

theorem test_route_stores_plaintext:
  assumes "test_route e st = (Some r, st')"
  shows "\<exists>d. users st' = users st @ [d] \<and> employees st' = employees st \<and>
             get (flds d) ''password'' = JStr ''123456''"
proof -
  let ?d = "new_doc e [(''username'', JStr ''test''), (''email'', JStr ''test@email.com''),
                       (''password'', JStr ''123456'')]"
  from assms obtain us where s: "save user_required (users st) ?d = Inr us"
    and st': "st' = st\<lparr>users := us\<rparr>"
    by (cases "save user_required (users st) ?d") (auto simp: test_route_def)
  from s have "us = users st @ [?d]" by (rule save_cases)
  moreover have "get (flds ?d) ''password'' = JStr ''123456''"
    unfolding test_user_flds by (simp add: get_def)
  ultimately show ?thesis using st' by auto
qed

theorem test_route_stores_plaintext_witness:
  "\<exists>d. users (snd (test_route demo_env \<lparr>users = [], employees = []\<rparr>)) = [] @ [d] \<and>
       get (flds d) ''password'' = JStr ''123456''"
proof -
  let ?t = "test_route demo_env \<lparr>users = [], employees = []\<rparr>"
  have "fst ?t = Some \<lparr>status = 200, json = JObj [(''message'', JStr ''Test user saved!'')]\<rparr>"
    by code_simp
  then have "?t = (Some \<lparr>status = 200, json = JObj [(''message'', JStr ''Test user saved!'')]\<rparr>,
                   snd ?t)"
    by (metis prod.collapse)
  from test_route_stores_plaintext [OF this] show ?thesis by auto
qed

subsection \<open>Deleting an employee\<close>










subsection \<open>The delete route without a path parameter\<close>




subsection \<open>Updating an employee\<close>










subsection \<open>Searching employees\<close>

lemma parse_frag_literal:
  "\<forall>c\<in>set p. \<not> regex_meta c \<Longrightarrow> parse_frag p = Some (map Lit p)"
  by (induction p) (auto simp: tok_of_def regex_meta_def)

lemma match_here_literal:
  "match_here (map Lit p) s = prefix (map to_lower p) (map to_lower s)"
proof (induction p arbitrary: s)
  case Nil
  then show ?case by simp
next
  case (Cons a p)
  then show ?case by (cases s) auto
qed

lemma search_toks_literal:
  "search_toks (map Lit p) s = ci_contains p s"
  unfolding ci_contains_def
proof (induction s)
  case Nil
  then show ?case by (cases p) simp_all
next
  case (Cons c s)
  then show ?case by (simp add: match_here_literal sublist_Cons_right)
qed

lemma regex_frag_literal:
  "\<forall>c\<in>set p. \<not> regex_meta c \<Longrightarrow> regex_frag p = Some (ci_contains p)"
  by (simp add: regex_frag_def parse_frag_literal search_toks_literal fun_eq_iff)

lemma field_contains_absent:
  "field_contains k Undefined d" "field_contains k (JStr []) d"
  by (simp_all add: field_contains_def)

lemma find_regex_none: "find_regex e [] ds = Inr ds"
  by (simp add: find_regex_def)

lemma find_regex_one:
  assumes "regex_i e p = Some (ci_contains p)" and "p \<noteq> []"
  shows "find_regex e [(k, JStr p)] ds = Inr (filter (field_contains k (JStr p)) ds)"
proof -
  have "(\<lambda>d. (case get (flds d) k of JStr s \<Rightarrow> ci_contains p s | _ \<Rightarrow> False) \<and> True) =
        field_contains k (JStr p)"
    using assms(2) by (simp add: field_contains_def fun_eq_iff)
  with assms(1) show ?thesis by (simp add: find_regex_def)
qed

lemma find_regex_two:
  assumes "regex_i e p = Some (ci_contains p)" and "p \<noteq> []"
    and "regex_i e p' = Some (ci_contains p')" and "p' \<noteq> []"
  shows "find_regex e [(k, JStr p), (k', JStr p')] ds =
         Inr (filter (\<lambda>d. field_contains k (JStr p) d \<and> field_contains k' (JStr p') d) ds)"
proof -
  have "(\<lambda>d. (case get (flds d) k of JStr s \<Rightarrow> ci_contains p s | _ \<Rightarrow> False) \<and>
             (case get (flds d) k' of JStr s \<Rightarrow> ci_contains p' s | _ \<Rightarrow> False) \<and> True) =
        (\<lambda>d. field_contains k (JStr p) d \<and> field_contains k' (JStr p') d)"
    using assms(2,4) by (simp add: field_contains_def fun_eq_iff)
  with assms(1,3) show ?thesis by (simp add: find_regex_def)
qed

text \<open>
  Claim C6, as the code has it. Each filter text is handed to the store as a
  case-insensitive regular expression. When, for each supplied filter text, that
  search is the literal one (as it is for a text without metacharacters, see
  \<open>regex_frag_literal\<close>), the answer is 200 with exactly the employees the
  specification's search selects: case-insensitive containment for each supplied
  filter, both when two are given, no constraint from an absent or empty filter,
  and the empty list when nothing matches.
\<close>

theorem search_literal_filters:
  assumes "get (query req) ''department'' = Undefined \<or>
           get (query req) ''department'' = JStr [] \<or>
           (\<exists>p. get (query req) ''department'' = JStr p \<and> regex_i e p = Some (ci_contains p))"
    and "get (query req) ''position'' = Undefined \<or>
         get (query req) ''position'' = JStr [] \<or>
         (\<exists>p. get (query req) ''position'' = JStr p \<and> regex_i e p = Some (ci_contains p))"
  shows "searchEmployees e req st =
           (\<lparr>status = 200,
             json = JArr (map doc_json
                      (spec_search (get (query req) ''department'')
                         (get (query req) ''position'') (employees st)))\<rparr>, st)"
proof -
  let ?dq = "get (query req) ''department''" and ?pq = "get (query req) ''position''"
  from assms(1) consider (dn) "?dq = Undefined \<or> ?dq = JStr []"
    | (ds) p where "?dq = JStr p" "p \<noteq> []" "regex_i e p = Some (ci_contains p)"
    by blast
  then show ?thesis
  proof cases
    case dn
    then have d: "\<not> truthy ?dq" "\<And>x. field_contains ''department'' ?dq x"
      by (auto simp: field_contains_absent)
    from assms(2) consider (pn) "?pq = Undefined \<or> ?pq = JStr []"
      | (ps) p' where "?pq = JStr p'" "p' \<noteq> []" "regex_i e p' = Some (ci_contains p')"
      by blast
    then show ?thesis
    proof cases
      case pn
      then have "\<not> truthy ?pq" "\<And>x. field_contains ''position'' ?pq x"
        by (auto simp: field_contains_absent)
      with d show ?thesis
        by (simp add: searchEmployees_def find_regex_none spec_search_def)
    next
      case ps
      with d show ?thesis
        by (simp add: searchEmployees_def assign_def find_regex_one spec_search_def)
    qed
  next
    case ds
    from assms(2) consider (pn) "?pq = Undefined \<or> ?pq = JStr []"
      | (ps) p' where "?pq = JStr p'" "p' \<noteq> []" "regex_i e p' = Some (ci_contains p')"
      by blast
    then show ?thesis
    proof cases
      case pn
      then have "\<not> truthy ?pq" "\<And>x. field_contains ''position'' ?pq x"
        by (auto simp: field_contains_absent)
      with ds show ?thesis
        by (simp add: searchEmployees_def assign_def find_regex_one spec_search_def)
    next
      case ps
      with ds show ?thesis
        by (simp add: searchEmployees_def assign_def find_regex_two spec_search_def)
    qed
  qed
qed

theorem search_literal_filters_witness:
  "searchEmployees demo_env (demo_search [(''department'', JStr ''eng'')]) demo_store =
     (\<lparr>status = 200, json = JArr [doc_json demo_engineer]\<rparr>, demo_store) \<and>
   searchEmployees demo_env
       (demo_search [(''department'', JStr ''S''), (''position'', JStr ''agent'')]) demo_store =
     (\<lparr>status = 200, json = JArr [doc_json demo_seller]\<rparr>, demo_store) \<and>
   searchEmployees demo_env (demo_search [(''department'', JStr ''zzz'')]) demo_store =
     (\<lparr>status = 200, json = JArr []\<rparr>, demo_store)"
proof -
  let ?r1 = "demo_search [(''department'', JStr ''eng'')]"
  let ?r2 = "demo_search [(''department'', JStr ''S''), (''position'', JStr ''agent'')]"
  let ?r3 = "demo_search [(''department'', JStr ''zzz'')]"
  have m: "\<forall>c\<in>set ''eng''. \<not> regex_meta c" "\<forall>c\<in>set ''S''. \<not> regex_meta c"
      "\<forall>c\<in>set ''agent''. \<not> regex_meta c" "\<forall>c\<in>set ''zzz''. \<not> regex_meta c"
    by (simp_all add: regex_meta_def)
  have rx: "regex_i demo_env = regex_frag" by (simp add: demo_env_def)
  have q: "get (query ?r1) ''department'' = JStr ''eng''" "get (query ?r1) ''position'' = Undefined"
      "get (query ?r2) ''department'' = JStr ''S''" "get (query ?r2) ''position'' = JStr ''agent''"
      "get (query ?r3) ''department'' = JStr ''zzz''" "get (query ?r3) ''position'' = Undefined"
    by code_simp+
  have v: "spec_search (JStr ''eng'') Undefined (employees demo_store) = [demo_engineer]"
      "spec_search (JStr ''S'') (JStr ''agent'') (employees demo_store) = [demo_seller]"
      "spec_search (JStr ''zzz'') Undefined (employees demo_store) = []"
    by code_simp+
  from search_literal_filters [of ?r1 demo_env demo_store]
       search_literal_filters [of ?r2 demo_env demo_store]
       search_literal_filters [of ?r3 demo_env demo_store]
       regex_frag_literal [OF m(1)] regex_frag_literal [OF m(2)]
       regex_frag_literal [OF m(3)] regex_frag_literal [OF m(4)]
  show ?thesis by (simp add: q v rx)
qed

text \<open>
  Claim C6, as stated, fails for a filter text with a metacharacter: the department
  filter "." selects both employees, and neither department contains a dot.
\<close>

theorem search_dot_matches_every_department:
  "get (query (demo_search [(''department'', JStr ''.'')])) ''department'' = JStr ''.'' \<and>
   searchEmployees demo_env (demo_search [(''department'', JStr ''.'')]) demo_store =
     (\<lparr>status = 200, json = JArr [doc_json demo_engineer, doc_json demo_seller]\<rparr>,
      demo_store) \<and>
   get (flds demo_seller) ''department'' = JStr ''Sales'' \<and>
   \<not> ci_contains ''.'' ''Sales'' \<and>
   get (flds demo_engineer) ''department'' = JStr ''Engineering'' \<and>
   \<not> ci_contains ''.'' ''Engineering''"
  by code_simp

end
